theory Spec2Isabelle
  imports Main "HOL-Library.AList"
begin

section \<open>Data model\<close>

text \<open>
  JSON values as they occur in a token payload. A datetime claim (\<open>iat\<close>, \<open>exp\<close>) is
  kept as whole seconds since the epoch.
\<close>

datatype json = JStr string | JNum int | JNull

text \<open>
  A Python \<open>dict\<close> with string keys: an association list in insertion order.
  \<open>d[k]\<close> is \<open>map_of d k\<close> (\<open>None\<close> is the \<open>KeyError\<close>), \<open>d.update(e)\<close> overwrites
  the keys of \<open>e\<close> in place and appends the new ones.
\<close>

type_synonym dict = "(string \<times> json) list"

definition dict_update :: "dict \<Rightarrow> dict \<Rightarrow> dict" where
  "dict_update d e = fold (\<lambda>(k, v). AList.update k v) e d"

text \<open>\<open>str(x)\<close> of a payload value.\<close>

fun str_nat :: "nat \<Rightarrow> string" where
  "str_nat n =
     (if n < 10 then [char_of (48 + n)]
      else str_nat (n div 10) @ [char_of (48 + n mod 10)])"

fun py_str :: "json \<Rightarrow> string" where
  "py_str (JStr s) = s"
| "py_str (JNum i) = (if i < 0 then CHR ''-'' # str_nat (nat (- i)) else str_nat (nat i))"
| "py_str JNull = ''None''"

text \<open>The \<open>users\<close> table of \<open>src/database/models.py\<close>: one record per row.\<close>

record user =
  uid :: nat
  username :: string
  email :: string
  avatar :: "string option"
  password :: string
  created_at :: int
  refresh_token :: "string option"
  confirmed :: bool

type_synonym db = "user list"

text \<open>
  What a handler can raise. \<open>HTTPException\<close> carries status code, detail and headers;
  \<open>KeyError\<close> and \<open>AttributeError\<close> are the Python exceptions no handler of the
  application catches.
\<close>

datatype error =
  HTTPException nat string "(string \<times> string) list"
| KeyError string
| AttributeError string

fun status_code :: "error \<Rightarrow> nat option" where
  "status_code (HTTPException s d h) = Some s"
| "status_code (KeyError k) = None"
| "status_code (AttributeError a) = None"

text \<open>
  The errors of \<open>jose\<close>: \<open>ExpiredSignatureError\<close> and \<open>JWTClaimsError\<close> are subclasses of
  \<open>JWTError\<close>, so \<open>except JWTError\<close> catches all three.
\<close>

datatype jwt_error = JWTError | ExpiredSignatureError | JWTClaimsError

text \<open>
  The libraries and the clock the service calls, as parameters:
  \<open>jwt_encode d\<close> is \<open>jwt.encode(d, SECRET_KEY, algorithm=ALGORITHM)\<close>,
  \<open>jwt_decode t\<close> is \<open>jwt.decode(t, SECRET_KEY, algorithms=[ALGORITHM])\<close> at the time of
  the request, \<open>pwd_verify\<close> and \<open>pwd_hash\<close> are \<open>pwd_context.verify\<close> and
  \<open>pwd_context.hash\<close>, \<open>now\<close> is the clock reading in seconds.
\<close>

record env =
  jwt_encode :: "dict \<Rightarrow> string"
  jwt_decode :: "string \<Rightarrow> jwt_error + dict"
  pwd_verify :: "string \<Rightarrow> string \<Rightarrow> bool"
  pwd_hash :: "string \<Rightarrow> string"
  now :: int

section \<open>The Auth service (src/services/auth.py)\<close>

definition verify_password :: "env \<Rightarrow> string \<Rightarrow> string \<Rightarrow> bool" where
  "verify_password e plain_password hashed_password =
     pwd_verify e plain_password hashed_password"

definition get_password_hash :: "env \<Rightarrow> string \<Rightarrow> string" where
  "get_password_hash e pw = pwd_hash e pw"

text \<open>\<open>if expires_delta:\<close> is false for \<open>None\<close> and for \<open>0\<close>.\<close>

definition create_access_token :: "env \<Rightarrow> dict \<Rightarrow> int option \<Rightarrow> string" where
  "create_access_token e data expires_delta =
     (let expire =
            (case expires_delta of
               Some d \<Rightarrow> if d \<noteq> 0 then now e + d else now e + 15 * 60
             | None \<Rightarrow> now e + 15 * 60);
          to_encode =
            dict_update data
              [(''iat'', JNum (now e)), (''exp'', JNum expire),
               (''scope'', JStr ''access_token'')]
      in jwt_encode e to_encode)"

definition create_refresh_token :: "env \<Rightarrow> dict \<Rightarrow> int option \<Rightarrow> string" where
  "create_refresh_token e data expires_delta =
     (let expire =
            (case expires_delta of
               Some d \<Rightarrow> if d \<noteq> 0 then now e + d else now e + 7 * 86400
             | None \<Rightarrow> now e + 7 * 86400);
          to_encode =
            dict_update data
              [(''iat'', JNum (now e)), (''exp'', JNum expire),
               (''scope'', JStr ''refresh_token'')]
      in jwt_encode e to_encode)"

definition decode_refresh_token :: "env \<Rightarrow> string \<Rightarrow> error + json" where
  "decode_refresh_token e tok =
     (case jwt_decode e tok of
        Inl err \<Rightarrow> Inl (HTTPException 401 ''Could not validate credentials'' [])
      | Inr payload \<Rightarrow>
          (case map_of payload ''scope'' of
             None \<Rightarrow> Inl (KeyError ''scope'')
           | Some sc \<Rightarrow>
               if sc = JStr ''refresh_token'' then
                 (case map_of payload ''sub'' of
                    None \<Rightarrow> Inl (KeyError ''sub'')
                  | Some em \<Rightarrow> Inr em)
               else Inl (HTTPException 401 ''Invalid scope for token'' [])))"

definition credentials_exception :: error where
  "credentials_exception =
     HTTPException 401 ''Could not validate credentials'' [(''WWW-Authenticate'', ''Bearer'')]"

text \<open>The first half of \<open>get_current_user\<close>: the \<open>try\<close> block that verifies the token.\<close>

definition access_token_subject :: "env \<Rightarrow> string \<Rightarrow> error + json" where
  "access_token_subject e tok =
     (case jwt_decode e tok of
        Inl err \<Rightarrow> Inl credentials_exception
      | Inr payload \<Rightarrow>
          (case map_of payload ''scope'' of
             None \<Rightarrow> Inl (KeyError ''scope'')
           | Some sc \<Rightarrow>
               if sc = JStr ''access_token'' then
                 (case map_of payload ''sub'' of
                    None \<Rightarrow> Inl (KeyError ''sub'')
                  | Some em \<Rightarrow> if em = JNull then Inl credentials_exception else Inr em)
               else Inl credentials_exception))"

definition create_email_token :: "env \<Rightarrow> dict \<Rightarrow> string" where
  "create_email_token e data =
     (let expire = now e + 7 * 86400;
          to_encode = dict_update data [(''iat'', JNum (now e)), (''exp'', JNum expire)]
      in jwt_encode e to_encode)"

definition get_email_from_token :: "env \<Rightarrow> string \<Rightarrow> error + json" where
  "get_email_from_token e tok =
     (case jwt_decode e tok of
        Inl err \<Rightarrow> Inl (HTTPException 422 ''Invalid token for email verification'' [])
      | Inr payload \<Rightarrow>
          (case map_of payload ''sub'' of
             None \<Rightarrow> Inl (KeyError ''sub'')
           | Some em \<Rightarrow> Inr em))"

text \<open>
  The Redis instance \<open>Auth.r\<close>: each key holds a pickled user and, once \<open>expire\<close> was
  called on it, a time-to-live in seconds. \<open>set\<close> stores a value with no time-to-live;
  \<open>expire\<close> changes an existing key only.
\<close>

record entry =
  snapshot :: user
  ttl :: "nat option"

type_synonym redis = "string \<rightharpoonup> entry"

definition redis_set :: "string \<Rightarrow> user \<Rightarrow> redis \<Rightarrow> redis" where
  "redis_set k u r = r(k \<mapsto> \<lparr>snapshot = u, ttl = None\<rparr>)"

definition redis_expire :: "string \<Rightarrow> nat \<Rightarrow> redis \<Rightarrow> redis" where
  "redis_expire k n r = (case r k of None \<Rightarrow> r | Some en \<Rightarrow> r(k \<mapsto> en\<lparr>ttl := Some n\<rparr>))"

text \<open>The calls \<open>get_current_user\<close> makes to Redis and to the database, in order.\<close>

datatype effect = RedisGet string | DbQuery json | RedisSet string | RedisExpire string nat

definition get_current_user ::
  "env \<Rightarrow> string \<Rightarrow> db \<Rightarrow> redis \<Rightarrow> (error + user) \<times> redis \<times> effect list" where
  "get_current_user e tok d r =
     (case access_token_subject e tok of
        Inl err \<Rightarrow> (Inl err, r, [])
      | Inr em \<Rightarrow>
          (let k = py_str em in
           case r k of
             Some en \<Rightarrow> (Inr (snapshot en), r, [RedisGet k])
           | None \<Rightarrow>
               (case find (\<lambda>u. JStr (email u) = em) d of
                  None \<Rightarrow> (Inl credentials_exception, r, [RedisGet k, DbQuery em])
                | Some u \<Rightarrow>
                    (Inr u, redis_expire k 120 (redis_set k u r),
                     [RedisGet k, DbQuery em, RedisSet k, RedisExpire k 120]))))"

text \<open>
  \<open>n\<close> protected requests in a row with the same token against the same database: the
  results and the effects of each, and the cache after the last.
\<close>

fun get_current_user_times ::
  "nat \<Rightarrow> env \<Rightarrow> string \<Rightarrow> db \<Rightarrow> redis \<Rightarrow> ((error + user) \<times> effect list) list \<times> redis" where
  "get_current_user_times 0 e tok d r = ([], r)"
| "get_current_user_times (Suc n) e tok d r =
     (case get_current_user e tok d r of
        (res, r', effs) \<Rightarrow>
          (case get_current_user_times n e tok d r' of
             (rest, r'') \<Rightarrow> ((res, effs) # rest, r'')))"

section \<open>The users repository (src/repository/users.py)\<close>

text \<open>\<open>db.query(User).filter(User.email == email).first()\<close>\<close>

definition get_user_by_email :: "json \<Rightarrow> db \<Rightarrow> user option" where
  "get_user_by_email em d = find (\<lambda>u. JStr (email u) = em) d"

text \<open>
  An assignment to an attribute of a loaded \<open>User\<close> followed by \<open>db.commit()\<close> writes
  that column of the row with the object's primary key.
\<close>

definition update_token :: "user \<Rightarrow> string option \<Rightarrow> db \<Rightarrow> db" where
  "update_token usr tok d =
     map (\<lambda>u. if uid u = uid usr then u\<lparr>refresh_token := tok\<rparr> else u) d"

definition repo_users_confirmed_email :: "json \<Rightarrow> db \<Rightarrow> error + db" where
  "repo_users_confirmed_email em d =
     (case get_user_by_email em d of
        None \<Rightarrow> Inl (AttributeError ''confirmed'')
      | Some usr \<Rightarrow> Inr (map (\<lambda>u. if uid u = uid usr then u\<lparr>confirmed := True\<rparr> else u) d))"

definition update_password :: "user \<Rightarrow> string \<Rightarrow> db \<Rightarrow> db" where
  "update_password usr pw d =
     map (\<lambda>u. if uid u = uid usr then u\<lparr>password := pw\<rparr> else u) d"

section \<open>The auth routes (src/routes/auth.py)\<close>

datatype response = Message string | TokenModel string string string

text \<open>What a handler puts on \<open>background_tasks\<close>: recipient, user name, base URL.\<close>

datatype task = send_email string string string | send_reset_password_email string string string

definition login :: "env \<Rightarrow> string \<Rightarrow> string \<Rightarrow> db \<Rightarrow> (error + response) \<times> db" where
  "login e body_username body_password d =
     (case get_user_by_email (JStr body_username) d of
        None \<Rightarrow> (Inl (HTTPException 401 ''Invalid email'' []), d)
      | Some usr \<Rightarrow>
          if \<not> confirmed usr then (Inl (HTTPException 401 ''Email not confirmed'' []), d)
          else if \<not> verify_password e body_password (password usr) then
            (Inl (HTTPException 401 ''Invalid password'' []), d)
          else
            (let access = create_access_token e [(''sub'', JStr (email usr))] None;
                 refresh = create_refresh_token e [(''sub'', JStr (email usr))] None
             in (Inr (TokenModel access refresh ''bearer''), update_token usr (Some refresh) d)))"

definition confirmed_email :: "env \<Rightarrow> string \<Rightarrow> db \<Rightarrow> (error + response) \<times> db" where
  "confirmed_email e tok d =
     (case get_email_from_token e tok of
        Inl err \<Rightarrow> (Inl err, d)
      | Inr em \<Rightarrow>
          (case get_user_by_email em d of
             None \<Rightarrow> (Inl (HTTPException 400 ''Verification error'' []), d)
           | Some usr \<Rightarrow>
               if confirmed usr then (Inr (Message ''Your email is already confirmed''), d)
               else
                 (case repo_users_confirmed_email em d of
                    Inl err \<Rightarrow> (Inl err, d)
                  | Inr d' \<Rightarrow> (Inr (Message ''Email confirmed''), d'))))"

text \<open>\<open>user.confirmed\<close> where \<open>user\<close> may be \<open>None\<close>.\<close>

definition getattr_confirmed :: "user option \<Rightarrow> error + bool" where
  "getattr_confirmed usr =
     (case usr of None \<Rightarrow> Inl (AttributeError ''confirmed'') | Some u \<Rightarrow> Inr (confirmed u))"

definition request_email :: "string \<Rightarrow> string \<Rightarrow> db \<Rightarrow> (error + response) \<times> task list" where
  "request_email body_email base_url d =
     (let usr = get_user_by_email (JStr body_email) d in
      case getattr_confirmed usr of
        Inl err \<Rightarrow> (Inl err, [])
      | Inr c \<Rightarrow>
          if c then (Inr (Message ''Your email is already confirmed''), [])
          else
            (Inr (Message ''Check your email for confirmation.''),
             (case usr of
                Some u \<Rightarrow> [send_email (email u) (username u) base_url]
              | None \<Rightarrow> [])))"

definition request_reset_password ::
  "string \<Rightarrow> string \<Rightarrow> db \<Rightarrow> (error + response) \<times> task list" where
  "request_reset_password body_email base_url d =
     (let usr = get_user_by_email (JStr body_email) d in
      (Inr (Message ''Check your email for confirmation.''),
       (case usr of
          Some u \<Rightarrow> [send_reset_password_email (email u) (username u) base_url]
        | None \<Rightarrow> [])))"

definition reset_password ::
  "env \<Rightarrow> string \<Rightarrow> string \<Rightarrow> string \<Rightarrow> db \<Rightarrow> (error + response) \<times> db" where
  "reset_password e password1 password2 tok d =
     (case get_email_from_token e tok of
        Inl err \<Rightarrow> (Inl err, d)
      | Inr em \<Rightarrow>
          (case get_user_by_email em d of
             None \<Rightarrow> (Inl (HTTPException 400 ''Verification error'' []), d)
           | Some usr \<Rightarrow>
               if password1 \<noteq> password2 then (Inr (Message ''Passwords do not match!''), d)
               else
                 (Inr (Message ''Password reset successfully''),
                  update_password usr (get_password_hash e password1) d)))"

text \<open>
  The handler of \<open>GET /auth/refresh_token\<close> (\<open>refresh_token\<close> in the source; the name is
  taken by the column). \<open>user.refresh_token\<close> on \<open>None\<close> raises \<open>AttributeError\<close>.
\<close>

definition refresh_token_route :: "env \<Rightarrow> string \<Rightarrow> db \<Rightarrow> (error + response) \<times> db" where
  "refresh_token_route e tok d =
     (case decode_refresh_token e tok of
        Inl err \<Rightarrow> (Inl err, d)
      | Inr em \<Rightarrow>
          (case get_user_by_email em d of
             None \<Rightarrow> (Inl (AttributeError ''refresh_token''), d)
           | Some usr \<Rightarrow>
               if refresh_token usr \<noteq> Some tok then
                 (Inl (HTTPException 401 ''Invalid refresh token'' []), update_token usr None d)
               else
                 (let access = create_access_token e [(''sub'', em)] None;
                      refresh = create_refresh_token e [(''sub'', em)] None
                  in (Inr (TokenModel access refresh ''bearer''),
                      update_token usr (Some refresh) d))))"

section \<open>The contacts routes (src/routes/contacts.py)\<close>

datatype contact_route =
  get_contacts | search_contacts | get_upcoming_birthdays | get_contact
| create_contact | update_contact | remove_contact

text \<open>
  The \<open>RateLimiter(times=..., seconds=...)\<close> dependency each route declares:
  \<open>(times, seconds)\<close>.
\<close>

fun rate_limiter :: "contact_route \<Rightarrow> nat \<times> int" where
  "rate_limiter get_contacts = (5, 60)"
| "rate_limiter search_contacts = (10, 60)"
| "rate_limiter get_upcoming_birthdays = (5, 60)"
| "rate_limiter get_contact = (10, 60)"
| "rate_limiter create_contact = (2, 180)"
| "rate_limiter update_contact = (5, 120)"
| "rate_limiter remove_contact = (5, 60)"

text \<open>
  Modelled from the spec: the limiter itself is \<open>fastapi_limiter.RateLimiter\<close>, a library
  that is not among the sources. Section 4.5 of the specification describes it:
  \<open>allow(client_key, route_key, max_calls, window_seconds)\<close> increments a shared counter
  keyed by (client_key, route_key); the first call in a window sets an expiry equal to
  \<open>window_seconds\<close>; if the post-increment count exceeds \<open>max_calls\<close> the call is rejected
  and the counter is left to expire naturally; the window resets when it elapses.
  The counter store and the time of the call (in seconds) are explicit.
\<close>

record rate_window =
  calls :: nat
  expires_at :: int

type_synonym counters = "string \<times> contact_route \<rightharpoonup> rate_window"

definition allow ::
  "counters \<Rightarrow> int \<Rightarrow> string \<Rightarrow> contact_route \<Rightarrow> nat \<Rightarrow> int \<Rightarrow> bool \<times> counters" where
  "allow st t client_key route_key max_calls window_seconds =
     (let live =
            (case st (client_key, route_key) of
               None \<Rightarrow> None
             | Some w \<Rightarrow> if t < expires_at w then Some w else None);
          w' =
            (case live of
               None \<Rightarrow> \<lparr>calls = 1, expires_at = t + window_seconds\<rparr>
             | Some w \<Rightarrow> w\<lparr>calls := calls w + 1\<rparr>)
      in (calls w' \<le> max_calls, st((client_key, route_key) \<mapsto> w')))"

text \<open>A client's calls to one route at the given times, each gated by the route's quota.\<close>

fun call_route :: "counters \<Rightarrow> string \<Rightarrow> contact_route \<Rightarrow> int list \<Rightarrow> bool list \<times> counters" where
  "call_route st client route [] = ([], st)"
| "call_route st client route (t # ts) =
     (case allow st t client route (fst (rate_limiter route)) (snd (rate_limiter route)) of
        (ok, st') \<Rightarrow>
          (case call_route st' client route ts of (oks, st'') \<Rightarrow> (ok # oks, st'')))"

section \<open>A reference codec and sample data\<close>

text \<open>
  A stand-in for the token library, used to run the handlers on concrete inputs: a token
  is the payload written out key by key, and the decoder accepts exactly the tokens that
  were minted for the payloads it is given.
\<close>

definition demo_encode :: "dict \<Rightarrow> string" where
  "demo_encode d = concat (map (\<lambda>(k, v). k @ ''='' @ py_str v @ '';'') d)"

definition demo_decode :: "dict list \<Rightarrow> string \<Rightarrow> jwt_error + dict" where
  "demo_decode issued tok =
     (case find (\<lambda>d. demo_encode d = tok) issued of
        Some d \<Rightarrow> Inr d
      | None \<Rightarrow> Inl JWTError)"

definition demo_env :: "dict list \<Rightarrow> int \<Rightarrow> env" where
  "demo_env issued t =
     \<lparr>jwt_encode = demo_encode, jwt_decode = demo_decode issued,
      pwd_verify = (\<lambda>plain hashed. hashed = ''$'' @ plain), pwd_hash = (\<lambda>plain. ''$'' @ plain),
      now = t\<rparr>"

definition alice :: user where
  "alice =
     \<lparr>uid = 1, username = ''alice'', email = ''a@b.com'', avatar = None,
      password = ''$secret'', created_at = 0, refresh_token = None, confirmed = True\<rparr>"

definition bob :: user where
  "bob =
     \<lparr>uid = 2, username = ''bob'', email = ''bob@b.com'', avatar = None,
      password = ''$hunter2'', created_at = 0, refresh_token = None, confirmed = False\<rparr>"

text \<open>The payloads of an access, a refresh and an email token minted for alice at time 0.\<close>

definition access_payload :: dict where
  "access_payload =
     [(''sub'', JStr ''a@b.com''), (''iat'', JNum 0), (''exp'', JNum 900),
      (''scope'', JStr ''access_token'')]"

definition refresh_payload :: dict where
  "refresh_payload =
     [(''sub'', JStr ''a@b.com''), (''iat'', JNum 0), (''exp'', JNum 604800),
      (''scope'', JStr ''refresh_token'')]"

definition email_payload :: dict where
  "email_payload = [(''sub'', JStr ''a@b.com''), (''iat'', JNum 0), (''exp'', JNum 604800)]"

declare str_nat.simps [simp del]

section \<open>Causes of a verification failure\<close>

text \<open>
  Why the verification of a token under an expected scope fails, when it fails for one
  of the causes the specification names: the decoder rejects the token (\<open>JWTError\<close> for an
  invalid signature, \<open>ExpiredSignatureError\<close> for expiry), or its \<open>scope\<close> claim is not
  the expected one.
\<close>

datatype cause = Rejected jwt_error | ScopeMismatch

definition failure_cause :: "env \<Rightarrow> string \<Rightarrow> string \<Rightarrow> cause option" where
  "failure_cause e expected_scope tok =
     (case jwt_decode e tok of
        Inl err \<Rightarrow> Some (Rejected err)
      | Inr payload \<Rightarrow>
          (case map_of payload ''scope'' of
             None \<Rightarrow> None
           | Some sc \<Rightarrow> if sc = JStr expected_scope then None else Some ScopeMismatch))"

section \<open>Auxiliary facts\<close>

lemmas demo_defs =
  demo_env_def demo_decode_def demo_encode_def access_payload_def refresh_payload_def
  email_payload_def alice_def bob_def dict_update_def str_nat.simps Let_def

text \<open>
  Writing a column that is not the email through the primary key leaves the row found
  by email in place, with the column written.
\<close>

lemma find_email_map:
  assumes "find (\<lambda>u. JStr (email u) = em) d = Some usr"
    and "\<And>x. email (f x) = email x"
  shows "find (\<lambda>u. JStr (email u) = em) (map (\<lambda>u. if uid u = uid usr then f u else u) d)
           = Some (f usr)"
  using assms(1)
proof (induction d)
  case Nil
  then show ?case by simp
next
  case (Cons x xs)
  show ?case
  proof (cases "JStr (email x) = em")
    case True
    with Cons.prems have "x = usr" by simp
    with True assms(2) show ?thesis by simp
  next
    case False
    with Cons.prems have "find (\<lambda>u. JStr (email u) = em) xs = Some usr" by simp
    with Cons.IH False assms(2) show ?thesis by simp
  qed
qed

lemma get_user_update_token:
  "get_user_by_email em d = Some u \<Longrightarrow>
   get_user_by_email em (update_token u t d) = Some (u\<lparr>refresh_token := t\<rparr>)"
  unfolding get_user_by_email_def update_token_def
  by (rule find_email_map) simp_all

lemma get_user_after_confirm:
  "get_user_by_email em d = Some u \<Longrightarrow>
   get_user_by_email em (map (\<lambda>x. if uid x = uid u then x\<lparr>confirmed := True\<rparr> else x) d)
     = Some (u\<lparr>confirmed := True\<rparr>)"
  unfolding get_user_by_email_def
  by (rule find_email_map) simp_all

text \<open>A lookup that leaves the cache as it was gives the same result every time.\<close>

lemma get_current_user_times_fixed:
  "get_current_user e tok d r = (res, r, effs) \<Longrightarrow>
   get_current_user_times n e tok d r = (replicate n (res, effs), r)"
  by (induction n) simp_all

section \<open>Token scopes\<close>

text \<open>
  C1, as the code has it. Resolving the current user succeeds only for a token whose
  \<open>scope\<close> claim is \<open>access_token\<close>, and decoding a refresh token only for one whose
  \<open>scope\<close> claim is \<open>refresh_token\<close>; so an access token is rejected by the refresh flow
  (401, "Invalid scope for token") and a refresh token by the resolution of the current
  user (401). The email-confirmation and password-reset flows check no scope at all:
  \<open>get_email_from_token\<close> returns the subject of every token that decodes and carries a
  \<open>sub\<close> claim, and the tokens \<open>create_email_token\<close> mints carry no \<open>scope\<close> claim.
\<close>

theorem scope_checked_for_access_and_refresh_only:
  "(fst (get_current_user e tok d r) = Inr u \<longrightarrow>
      (\<exists>p. jwt_decode e tok = Inr p \<and> map_of p ''scope'' = Some (JStr ''access_token'')))
   \<and> (decode_refresh_token e tok = Inr em \<longrightarrow>
      (\<exists>p. jwt_decode e tok = Inr p \<and> map_of p ''scope'' = Some (JStr ''refresh_token'')
           \<and> map_of p ''sub'' = Some em))
   \<and> (jwt_decode e tok = Inr p \<and> map_of p ''scope'' = Some (JStr ''access_token'') \<longrightarrow>
        decode_refresh_token e tok = Inl (HTTPException 401 ''Invalid scope for token'' []))
   \<and> (jwt_decode e tok = Inr p \<and> map_of p ''scope'' = Some (JStr ''refresh_token'') \<longrightarrow>
        fst (get_current_user e tok d r) = Inl credentials_exception)
   \<and> (get_email_from_token e tok = Inr em \<longleftrightarrow>
        (\<exists>p. jwt_decode e tok = Inr p \<and> map_of p ''sub'' = Some em))
   \<and> (\<exists>p. create_email_token e [(''sub'', s)] = jwt_encode e p \<and> map_of p ''scope'' = None
           \<and> map_of p ''sub'' = Some s)"
  by (auto simp: get_current_user_def access_token_subject_def decode_refresh_token_def
      get_email_from_token_def create_email_token_def dict_update_def Let_def
      split: sum.splits option.splits if_splits)

text \<open>
  The theorem at alice's access and refresh tokens: each is rejected by the other flow
  and accepted by its own.
\<close>

theorem scope_checked_for_access_and_refresh_only_witness:
  "decode_refresh_token (demo_env [access_payload, refresh_payload] 5) (demo_encode access_payload)
     = Inl (HTTPException 401 ''Invalid scope for token'' [])
   \<and> fst (get_current_user (demo_env [access_payload, refresh_payload] 5)
            (demo_encode refresh_payload) [alice] Map.empty) = Inl credentials_exception
   \<and> decode_refresh_token (demo_env [access_payload, refresh_payload] 5)
        (demo_encode refresh_payload) = Inr (JStr ''a@b.com'')
   \<and> fst (get_current_user (demo_env [access_payload, refresh_payload] 5)
            (demo_encode access_payload) [alice] Map.empty) = Inr alice"
proof -
  let ?e = "demo_env [access_payload, refresh_payload] 5"
  have a: "jwt_decode ?e (demo_encode access_payload) = Inr access_payload
      \<and> map_of access_payload ''scope'' = Some (JStr ''access_token'')"
    by (simp add: demo_defs)
  have b: "jwt_decode ?e (demo_encode refresh_payload) = Inr refresh_payload
      \<and> map_of refresh_payload ''scope'' = Some (JStr ''refresh_token'')"
    by (simp add: demo_defs)
  have 1: "decode_refresh_token ?e (demo_encode access_payload)
      = Inl (HTTPException 401 ''Invalid scope for token'' [])"
    using a scope_checked_for_access_and_refresh_only
      [where e = ?e and tok = "demo_encode access_payload" and p = access_payload]
    by blast
  have 2: "fst (get_current_user ?e (demo_encode refresh_payload) [alice] Map.empty)
      = Inl credentials_exception"
    using b scope_checked_for_access_and_refresh_only
      [where e = ?e and tok = "demo_encode refresh_payload" and p = refresh_payload
        and d = "[alice]" and r = Map.empty]
    by blast
  have 3: "decode_refresh_token ?e (demo_encode refresh_payload) = Inr (JStr ''a@b.com'')"
    by (simp add: decode_refresh_token_def demo_defs)
  have 4: "fst (get_current_user ?e (demo_encode access_payload) [alice] Map.empty) = Inr alice"
    by (simp add: get_current_user_def access_token_subject_def demo_defs)
  from 1 2 3 4 show ?thesis by blast
qed

text \<open>
  C1 as stated fails: the access token minted for alice at time 0 (its scope is
  \<open>access_token\<close>) is accepted by \<open>get_email_from_token\<close>, and the password-reset
  handler resets her password with it.
\<close>

theorem email_flows_accept_access_token:
  "create_access_token (demo_env [] 0) [(''sub'', JStr ''a@b.com'')] None
     = demo_encode access_payload
   \<and> map_of access_payload ''scope'' = Some (JStr ''access_token'')
   \<and> get_email_from_token (demo_env [access_payload] 5) (demo_encode access_payload)
       = Inr (JStr ''a@b.com'')
   \<and> reset_password (demo_env [access_payload] 5) ''new'' ''new'' (demo_encode access_payload)
        [alice]
       = (Inr (Message ''Password reset successfully''), [alice\<lparr>password := ''$new''\<rparr>])"
  by (simp add: create_access_token_def get_email_from_token_def reset_password_def
      get_user_by_email_def update_password_def get_password_hash_def demo_defs)

section \<open>Failure responses\<close>

text \<open>
  C7, as the code has it. Two tokens that fail verification for any of the causes
  (rejected by the decoder as invalid or expired, or a scope other than the expected one)
  both get status 401. Resolving the current user answers both with the same exception.
  Decoding a refresh token answers two decoder rejections alike, and two scope mismatches
  alike, but a scope mismatch ("Invalid scope for token") differently from a decoder
  rejection ("Could not validate credentials").
\<close>

theorem token_failure_responses:
  "(failure_cause e ''access_token'' t1 = Some c1 \<and> failure_cause e ''access_token'' t2 = Some c2 \<longrightarrow>
      fst (get_current_user e t1 d1 r1) = Inl credentials_exception
    \<and> fst (get_current_user e t2 d2 r2) = Inl credentials_exception)
   \<and> status_code credentials_exception = Some 401
   \<and> (failure_cause e ''refresh_token'' t1 = Some c1 \<and> failure_cause e ''refresh_token'' t2 = Some c2 \<longrightarrow>
        (\<exists>detail. decode_refresh_token e t1 = Inl (HTTPException 401 detail []))
      \<and> (\<exists>detail. decode_refresh_token e t2 = Inl (HTTPException 401 detail []))
      \<and> ((c1 = ScopeMismatch) = (c2 = ScopeMismatch) \<longrightarrow>
           decode_refresh_token e t1 = decode_refresh_token e t2)
      \<and> (c1 = ScopeMismatch \<and> c2 \<noteq> ScopeMismatch \<longrightarrow>
           decode_refresh_token e t1 = Inl (HTTPException 401 ''Invalid scope for token'' [])
         \<and> decode_refresh_token e t2
             = Inl (HTTPException 401 ''Could not validate credentials'' [])))"
  by (auto simp: failure_cause_def get_current_user_def access_token_subject_def
      decode_refresh_token_def credentials_exception_def
      split: sum.splits option.splits if_splits)

text \<open>The theorem at an unsigned string and at a token of the other scope.\<close>

theorem token_failure_responses_witness:
  "fst (get_current_user (demo_env [refresh_payload] 5) ''garbage'' [alice] Map.empty)
     = Inl credentials_exception
   \<and> fst (get_current_user (demo_env [refresh_payload] 5) (demo_encode refresh_payload)
        [alice] Map.empty) = Inl credentials_exception
   \<and> decode_refresh_token (demo_env [access_payload] 5) (demo_encode access_payload)
       = Inl (HTTPException 401 ''Invalid scope for token'' [])
   \<and> decode_refresh_token (demo_env [access_payload] 5) ''garbage''
       = Inl (HTTPException 401 ''Could not validate credentials'' [])"
proof -
  have a: "failure_cause (demo_env [refresh_payload] 5) ''access_token'' ''garbage''
             = Some (Rejected JWTError)
      \<and> failure_cause (demo_env [refresh_payload] 5) ''access_token''
           (demo_encode refresh_payload) = Some ScopeMismatch"
    by (simp add: failure_cause_def demo_defs)
  have b: "failure_cause (demo_env [access_payload] 5) ''refresh_token''
             (demo_encode access_payload) = Some ScopeMismatch
      \<and> failure_cause (demo_env [access_payload] 5) ''refresh_token'' ''garbage''
           = Some (Rejected JWTError)"
    by (simp add: failure_cause_def demo_defs)
  have 1: "fst (get_current_user (demo_env [refresh_payload] 5) ''garbage'' [alice] Map.empty)
             = Inl credentials_exception
      \<and> fst (get_current_user (demo_env [refresh_payload] 5) (demo_encode refresh_payload)
           [alice] Map.empty) = Inl credentials_exception"
    using a token_failure_responses
      [where e = "demo_env [refresh_payload] 5" and ?t1.0 = "''garbage''"
        and ?t2.0 = "demo_encode refresh_payload" and ?c1.0 = "Rejected JWTError"
        and ?c2.0 = ScopeMismatch and ?d1.0 = "[alice]" and ?d2.0 = "[alice]"
        and ?r1.0 = Map.empty and ?r2.0 = Map.empty]
    by blast
  have 2: "decode_refresh_token (demo_env [access_payload] 5) (demo_encode access_payload)
             = Inl (HTTPException 401 ''Invalid scope for token'' [])
      \<and> decode_refresh_token (demo_env [access_payload] 5) ''garbage''
           = Inl (HTTPException 401 ''Could not validate credentials'' [])"
    using b token_failure_responses
      [where e = "demo_env [access_payload] 5" and ?t1.0 = "demo_encode access_payload"
        and ?t2.0 = "''garbage''" and ?c1.0 = ScopeMismatch and ?c2.0 = "Rejected JWTError"]
    by blast
  from 1 2 show ?thesis by blast
qed

text \<open>
  C7 as stated fails: decoding a refresh token answers an invalid token and an access
  token with different details.
\<close>

theorem refresh_decoding_tells_scope_mismatch:
  "failure_cause (demo_env [access_payload] 5) ''refresh_token'' ''garbage''
     = Some (Rejected JWTError)
   \<and> failure_cause (demo_env [access_payload] 5) ''refresh_token'' (demo_encode access_payload)
       = Some ScopeMismatch
   \<and> decode_refresh_token (demo_env [access_payload] 5) ''garbage''
       = Inl (HTTPException 401 ''Could not validate credentials'' [])
   \<and> decode_refresh_token (demo_env [access_payload] 5) (demo_encode access_payload)
       = Inl (HTTPException 401 ''Invalid scope for token'' [])
   \<and> decode_refresh_token (demo_env [access_payload] 5) ''garbage''
       \<noteq> decode_refresh_token (demo_env [access_payload] 5) (demo_encode access_payload)"
  by (simp add: failure_cause_def decode_refresh_token_def demo_defs)

section \<open>Tokens with missing claims\<close>

text \<open>
  C10, as the code has it. For a token that decodes: without a \<open>scope\<close> claim,
  resolving the current user and decoding a refresh token raise \<open>KeyError\<close>, which is no
  HTTP error; without a \<open>sub\<close> claim, decoding an email token raises \<open>KeyError\<close>, and so
  do the other two when the scope is the expected one. Decoding an email token never
  reads \<open>scope\<close>: with a \<open>sub\<close> claim it returns the subject. A scope that is present but
  not the expected one gets the ordinary 401 whether or not \<open>sub\<close> is there.
\<close>

theorem missing_claims_raise_key_error:
  "jwt_decode e tok = Inr p \<longrightarrow>
     (map_of p ''scope'' = None \<longrightarrow>
        fst (get_current_user e tok d r) = Inl (KeyError ''scope'')
      \<and> decode_refresh_token e tok = Inl (KeyError ''scope''))
   \<and> (map_of p ''sub'' = None \<longrightarrow> get_email_from_token e tok = Inl (KeyError ''sub''))
   \<and> (map_of p ''sub'' = None \<and> map_of p ''scope'' = Some (JStr ''access_token'') \<longrightarrow>
        fst (get_current_user e tok d r) = Inl (KeyError ''sub''))
   \<and> (map_of p ''sub'' = None \<and> map_of p ''scope'' = Some (JStr ''refresh_token'') \<longrightarrow>
        decode_refresh_token e tok = Inl (KeyError ''sub''))
   \<and> (map_of p ''sub'' = Some em \<longrightarrow> get_email_from_token e tok = Inr em)
   \<and> (map_of p ''scope'' = Some sc \<and> sc \<noteq> JStr ''access_token'' \<longrightarrow>
        fst (get_current_user e tok d r) = Inl credentials_exception)
   \<and> (map_of p ''scope'' = Some sc \<and> sc \<noteq> JStr ''refresh_token'' \<longrightarrow>
        decode_refresh_token e tok = Inl (HTTPException 401 ''Invalid scope for token'' []))
   \<and> status_code (KeyError ''scope'') = None \<and> status_code (KeyError ''sub'') = None"
  by (auto simp: get_current_user_def access_token_subject_def decode_refresh_token_def
      get_email_from_token_def split: sum.splits option.splits if_splits)

text \<open>
  The theorem at the email token minted for alice, which has no \<open>scope\<close> claim: as a
  bearer token it raises \<open>KeyError\<close>.
\<close>

theorem missing_claims_raise_key_error_witness:
  "fst (get_current_user (demo_env [email_payload] 5) (demo_encode email_payload) [alice]
          Map.empty) = Inl (KeyError ''scope'')
   \<and> decode_refresh_token (demo_env [email_payload] 5) (demo_encode email_payload)
       = Inl (KeyError ''scope'')
   \<and> get_email_from_token (demo_env [email_payload] 5) (demo_encode email_payload)
       = Inr (JStr ''a@b.com'')"
proof -
  have a: "jwt_decode (demo_env [email_payload] 5) (demo_encode email_payload) = Inr email_payload
      \<and> map_of email_payload ''scope'' = None
      \<and> map_of email_payload ''sub'' = Some (JStr ''a@b.com'')"
    by (simp add: demo_defs)
  show ?thesis
    using a missing_claims_raise_key_error
      [where e = "demo_env [email_payload] 5" and tok = "demo_encode email_payload"
        and p = email_payload and d = "[alice]" and r = Map.empty and em = "JStr ''a@b.com''"]
    by blast
qed

text \<open>
  C10 as stated fails: a token without \<open>scope\<close> is decoded by \<open>get_email_from_token\<close>
  with no error, and a refresh-scoped token without \<open>sub\<close> gets the 401 of
  \<open>get_current_user\<close>, not a \<open>KeyError\<close>.
\<close>

theorem missing_scope_no_key_error_in_email_decoding:
  "jwt_decode (demo_env [email_payload] 5) (demo_encode email_payload) = Inr email_payload
   \<and> map_of email_payload ''scope'' = None
   \<and> get_email_from_token (demo_env [email_payload] 5) (demo_encode email_payload)
       = Inr (JStr ''a@b.com'')
   \<and> jwt_decode (demo_env [[(''scope'', JStr ''refresh_token'')]] 5)
        (demo_encode [(''scope'', JStr ''refresh_token'')])
       = Inr [(''scope'', JStr ''refresh_token'')]
   \<and> map_of [(''scope'', JStr ''refresh_token'')] ''sub'' = None
   \<and> fst (get_current_user (demo_env [[(''scope'', JStr ''refresh_token'')]] 5)
        (demo_encode [(''scope'', JStr ''refresh_token'')]) [alice] Map.empty)
       = Inl credentials_exception"
  by (simp add: get_email_from_token_def get_current_user_def access_token_subject_def demo_defs)

section \<open>Email confirmation\<close>

text \<open>
  C9, as the code has it. The email-confirmation endpoint answers a token the decoder
  rejects (malformed, invalidly signed or expired) with 422; a token that decodes and
  carries a \<open>sub\<close> claim gets 400 when no identity has that email, and otherwise a
  message (status 200): "already confirmed" or "Email confirmed".
\<close>

theorem confirmed_email_responses:
  "(jwt_decode e tok = Inl err \<longrightarrow>
      confirmed_email e tok d
        = (Inl (HTTPException 422 ''Invalid token for email verification'' []), d))
   \<and> (jwt_decode e tok = Inr p \<and> map_of p ''sub'' = Some em \<longrightarrow>
        (case get_user_by_email em d of
           None \<Rightarrow> confirmed_email e tok d = (Inl (HTTPException 400 ''Verification error'' []), d)
         | Some u \<Rightarrow>
             fst (confirmed_email e tok d)
               = Inr (Message (if confirmed u then ''Your email is already confirmed''
                               else ''Email confirmed''))))"
  by (auto simp: confirmed_email_def get_email_from_token_def repo_users_confirmed_email_def
      split: sum.splits option.splits if_splits)

text \<open>The theorem at an unsigned string and at alice's email token.\<close>

theorem confirmed_email_responses_witness:
  "confirmed_email (demo_env [email_payload] 5) ''garbage'' [alice]
     = (Inl (HTTPException 422 ''Invalid token for email verification'' []), [alice])
   \<and> confirmed_email (demo_env [email_payload] 5) (demo_encode email_payload) [bob]
       = (Inl (HTTPException 400 ''Verification error'' []), [bob])
   \<and> fst (confirmed_email (demo_env [email_payload] 5) (demo_encode email_payload) [alice])
       = Inr (Message ''Your email is already confirmed'')"
proof -
  let ?e = "demo_env [email_payload] 5"
  have a: "jwt_decode ?e ''garbage'' = Inl JWTError"
    by (simp add: demo_defs)
  have b: "jwt_decode ?e (demo_encode email_payload) = Inr email_payload
      \<and> map_of email_payload ''sub'' = Some (JStr ''a@b.com'')"
    by (simp add: demo_defs)
  have c: "get_user_by_email (JStr ''a@b.com'') [bob] = None
      \<and> get_user_by_email (JStr ''a@b.com'') [alice] = Some alice \<and> confirmed alice"
    by (simp add: get_user_by_email_def demo_defs)
  have 1: "confirmed_email ?e ''garbage'' [alice]
      = (Inl (HTTPException 422 ''Invalid token for email verification'' []), [alice])"
    using a confirmed_email_responses [where e = ?e and tok = "''garbage''" and err = JWTError]
    by blast
  have 2: "confirmed_email ?e (demo_encode email_payload) [bob]
      = (Inl (HTTPException 400 ''Verification error'' []), [bob])"
    using b c confirmed_email_responses
      [where e = ?e and tok = "demo_encode email_payload" and p = email_payload
        and em = "JStr ''a@b.com''" and d = "[bob]"]
    by simp
  have 3: "fst (confirmed_email ?e (demo_encode email_payload) [alice])
      = Inr (Message ''Your email is already confirmed'')"
    using b c confirmed_email_responses
      [where e = ?e and tok = "demo_encode email_payload" and p = email_payload
        and em = "JStr ''a@b.com''" and d = "[alice]"]
    by simp
  from 1 2 3 show ?thesis by blast
qed

text \<open>C9 as stated fails: a string that is no token gets status 422.\<close>

theorem confirmed_email_answers_422:
  "confirmed_email (demo_env [email_payload] 5) ''garbage'' [alice]
     = (Inl (HTTPException 422 ''Invalid token for email verification'' []), [alice])"
  by (simp add: confirmed_email_def get_email_from_token_def demo_defs)

text \<open>
  C6. Given a token whose subject resolves to an identity: when the identity is already
  confirmed, the handler answers "Your email is already confirmed" and the database is
  unchanged; when it is not, the handler answers "Email confirmed", the identity found by
  that email now has \<open>confirmed = True\<close>, and confirming again with the same token
  answers "already confirmed" and changes nothing further.
\<close>

theorem confirm_email_idempotent:
  assumes "get_email_from_token e tok = Inr em"
    and "get_email_from_token e2 tok = Inr em"
    and "get_user_by_email em d = Some u"
  shows "(confirmed u \<longrightarrow>
            confirmed_email e tok d = (Inr (Message ''Your email is already confirmed''), d))
       \<and> (\<not> confirmed u \<longrightarrow>
            fst (confirmed_email e tok d) = Inr (Message ''Email confirmed'')
          \<and> get_user_by_email em (snd (confirmed_email e tok d)) = Some (u\<lparr>confirmed := True\<rparr>)
          \<and> confirmed_email e2 tok (snd (confirmed_email e tok d))
              = (Inr (Message ''Your email is already confirmed''), snd (confirmed_email e tok d)))"
proof (cases "confirmed u")
  case True
  with assms show ?thesis by (simp add: confirmed_email_def)
next
  case False
  let ?d' = "map (\<lambda>x. if uid x = uid u then x\<lparr>confirmed := True\<rparr> else x) d"
  from assms(1,3) False have run: "confirmed_email e tok d = (Inr (Message ''Email confirmed''), ?d')"
    by (simp add: confirmed_email_def repo_users_confirmed_email_def)
  from assms(3) have found: "get_user_by_email em ?d' = Some (u\<lparr>confirmed := True\<rparr>)"
    by (rule get_user_after_confirm)
  from assms(2) found
  have again: "confirmed_email e2 tok ?d' = (Inr (Message ''Your email is already confirmed''), ?d')"
    by (simp add: confirmed_email_def)
  from False run found again show ?thesis by simp
qed

text \<open>The theorem at bob, who is not confirmed, in a table of two users.\<close>

theorem confirm_email_idempotent_witness:
  "confirmed_email (demo_env [[(''sub'', JStr ''bob@b.com'')]] 5)
       (demo_encode [(''sub'', JStr ''bob@b.com'')]) [alice, bob]
     = (Inr (Message ''Email confirmed''), [alice, bob\<lparr>confirmed := True\<rparr>])
   \<and> confirmed_email (demo_env [[(''sub'', JStr ''bob@b.com'')]] 9)
       (demo_encode [(''sub'', JStr ''bob@b.com'')]) [alice, bob\<lparr>confirmed := True\<rparr>]
     = (Inr (Message ''Your email is already confirmed''), [alice, bob\<lparr>confirmed := True\<rparr>])"
proof -
  let ?e = "demo_env [[(''sub'', JStr ''bob@b.com'')]] 5"
  let ?e2 = "demo_env [[(''sub'', JStr ''bob@b.com'')]] 9"
  let ?tok = "demo_encode [(''sub'', JStr ''bob@b.com'')]"
  have a: "get_email_from_token ?e ?tok = Inr (JStr ''bob@b.com'')"
    by (simp add: get_email_from_token_def demo_defs)
  have b: "get_email_from_token ?e2 ?tok = Inr (JStr ''bob@b.com'')"
    by (simp add: get_email_from_token_def demo_defs)
  have c: "get_user_by_email (JStr ''bob@b.com'') [alice, bob] = Some bob"
    by (simp add: get_user_by_email_def demo_defs)
  have n: "\<not> confirmed bob"
    by (simp add: bob_def)
  have s: "snd (confirmed_email ?e ?tok [alice, bob]) = [alice, bob\<lparr>confirmed := True\<rparr>]"
    by (simp add: confirmed_email_def get_email_from_token_def get_user_by_email_def
        repo_users_confirmed_email_def demo_defs)
  from confirm_email_idempotent [OF a b c] n s show ?thesis
    by (simp add: prod_eq_iff)
qed

section \<open>Resolving the current user through the cache\<close>

text \<open>
  C5. For a token verified under the access scope with subject \<open>em\<close>: on a cache hit the
  cached snapshot is returned, the only effect is the Redis read, and the result does not
  depend on the database; on a miss the database is queried and, if the identity is
  found, it is returned and stored under the subject's key with a time-to-live of 120
  seconds; if the database misses too, the handler raises the 401 and the cache is left
  as it was, so every one of \<open>n\<close> lookups in a row queries the database again.
\<close>

theorem read_through_cache:
  assumes "jwt_decode e tok = Inr p"
    and "map_of p ''scope'' = Some (JStr ''access_token'')"
    and "map_of p ''sub'' = Some em"
    and "em \<noteq> JNull"
  shows "(r (py_str em) = Some en \<longrightarrow>
            get_current_user e tok d r = (Inr (snapshot en), r, [RedisGet (py_str em)])
          \<and> get_current_user e tok d2 r = get_current_user e tok d r)
       \<and> (r (py_str em) = None \<and> get_user_by_email em d = Some u \<longrightarrow>
            get_current_user e tok d r
              = (Inr u, r(py_str em \<mapsto> \<lparr>snapshot = u, ttl = Some 120\<rparr>),
                 [RedisGet (py_str em), DbQuery em, RedisSet (py_str em),
                  RedisExpire (py_str em) 120]))
       \<and> (r (py_str em) = None \<and> get_user_by_email em d = None \<longrightarrow>
            get_current_user e tok d r
              = (Inl credentials_exception, r, [RedisGet (py_str em), DbQuery em])
          \<and> status_code credentials_exception = Some 401
          \<and> get_current_user_times n e tok d r
              = (replicate n (Inl credentials_exception, [RedisGet (py_str em), DbQuery em]), r))"
proof -
  from assms have sub: "access_token_subject e tok = Inr em"
    by (simp add: access_token_subject_def)
  have hit: "get_current_user e tok d' r = (Inr (snapshot en), r, [RedisGet (py_str em)])"
    if "r (py_str em) = Some en" for d'
    using sub that by (simp add: get_current_user_def Let_def)
  have found: "get_current_user e tok d r
      = (Inr u, r(py_str em \<mapsto> \<lparr>snapshot = u, ttl = Some 120\<rparr>),
         [RedisGet (py_str em), DbQuery em, RedisSet (py_str em), RedisExpire (py_str em) 120])"
    if "r (py_str em) = None" and "get_user_by_email em d = Some u"
    using sub that
    by (simp add: get_current_user_def get_user_by_email_def redis_set_def redis_expire_def Let_def)
  have absent: "get_current_user e tok d r
      = (Inl credentials_exception, r, [RedisGet (py_str em), DbQuery em])"
    if "r (py_str em) = None" and "get_user_by_email em d = None"
    using sub that by (simp add: get_current_user_def get_user_by_email_def Let_def)
  have code: "status_code credentials_exception = Some 401"
    by (simp add: credentials_exception_def)
  from hit found absent code get_current_user_times_fixed [OF absent] show ?thesis
    by simp
qed

text \<open>The theorem at alice's access token: a hit, a miss that is found, three misses.\<close>

theorem read_through_cache_witness:
  "get_current_user (demo_env [access_payload] 5) (demo_encode access_payload) []
       [''a@b.com'' \<mapsto> \<lparr>snapshot = alice, ttl = Some 120\<rparr>]
     = (Inr alice, [''a@b.com'' \<mapsto> \<lparr>snapshot = alice, ttl = Some 120\<rparr>],
        [RedisGet ''a@b.com''])
   \<and> get_current_user (demo_env [access_payload] 5) (demo_encode access_payload) [bob, alice]
       Map.empty
     = (Inr alice, [''a@b.com'' \<mapsto> \<lparr>snapshot = alice, ttl = Some 120\<rparr>],
        [RedisGet ''a@b.com'', DbQuery (JStr ''a@b.com''), RedisSet ''a@b.com'',
         RedisExpire ''a@b.com'' 120])
   \<and> get_current_user_times 3 (demo_env [access_payload] 5) (demo_encode access_payload) [bob]
       Map.empty
     = (replicate 3
          (Inl credentials_exception, [RedisGet ''a@b.com'', DbQuery (JStr ''a@b.com'')]),
        Map.empty)"
proof -
  let ?e = "demo_env [access_payload] 5"
  let ?tok = "demo_encode access_payload"
  have a: "jwt_decode ?e ?tok = Inr access_payload"
    by (simp add: demo_defs)
  have b: "map_of access_payload ''scope'' = Some (JStr ''access_token'')"
    by (simp add: demo_defs)
  have c: "map_of access_payload ''sub'' = Some (JStr ''a@b.com'')"
    by (simp add: demo_defs)
  have n: "JStr ''a@b.com'' \<noteq> JNull"
    by simp
  have u: "get_user_by_email (JStr ''a@b.com'') [bob, alice] = Some alice
      \<and> get_user_by_email (JStr ''a@b.com'') [bob] = None"
    by (simp add: get_user_by_email_def demo_defs)
  have 1: "get_current_user ?e ?tok []
       [''a@b.com'' \<mapsto> \<lparr>snapshot = alice, ttl = Some 120\<rparr>]
     = (Inr alice, [''a@b.com'' \<mapsto> \<lparr>snapshot = alice, ttl = Some 120\<rparr>],
        [RedisGet ''a@b.com''])"
    using read_through_cache [OF a b c n, where r = "[''a@b.com'' \<mapsto> \<lparr>snapshot = alice, ttl = Some 120\<rparr>]"
        and en = "\<lparr>snapshot = alice, ttl = Some 120\<rparr>" and d = "[]"]
    by simp
  have 2: "get_current_user ?e ?tok [bob, alice] Map.empty
     = (Inr alice, [''a@b.com'' \<mapsto> \<lparr>snapshot = alice, ttl = Some 120\<rparr>],
        [RedisGet ''a@b.com'', DbQuery (JStr ''a@b.com''), RedisSet ''a@b.com'',
         RedisExpire ''a@b.com'' 120])"
    using u read_through_cache [OF a b c n, where r = Map.empty and d = "[bob, alice]" and u = alice]
    by simp
  have 3: "get_current_user_times 3 ?e ?tok [bob] Map.empty
     = (replicate 3
          (Inl credentials_exception, [RedisGet ''a@b.com'', DbQuery (JStr ''a@b.com'')]),
        Map.empty)"
    using u read_through_cache [OF a b c n, where r = Map.empty and d = "[bob]" and n = 3]
    by simp
  from 1 2 3 show ?thesis by blast
qed

section \<open>Requesting a confirmation email\<close>

text \<open>
  C3 at an address no identity has: \<open>request_email\<close> reads \<open>user.confirmed\<close> before it
  tests \<open>user\<close> and raises \<open>AttributeError\<close>, where \<open>request_reset_password\<close> answers
  with the generic message.
\<close>

theorem request_email_unknown_address:
  "get_user_by_email (JStr ''nobody@b.com'') [alice, bob] = None
   \<and> request_email ''nobody@b.com'' ''http://testserver/'' [alice, bob]
       = (Inl (AttributeError ''confirmed''), [])
   \<and> request_reset_password ''nobody@b.com'' ''http://testserver/'' [alice, bob]
       = (Inr (Message ''Check your email for confirmation.''), [])"
  by (simp add: request_email_def request_reset_password_def getattr_confirmed_def
      get_user_by_email_def demo_defs)

section \<open>Login\<close>

text \<open>
  C4. Login raises an error exactly when no identity has the submitted email, or the
  identity is not confirmed, or the password does not verify against the stored hash;
  every error it raises has status 401 and leaves the database as it was. Otherwise it
  returns a new access token and a new refresh token for the identity's email with token
  type "bearer", and the identity found by that email afterwards holds the new refresh
  token, whatever it held before.
\<close>

theorem login_outcomes:
  "((\<exists>err. fst (login e un pw d) = Inl err) \<longleftrightarrow>
      (get_user_by_email (JStr un) d = None
       \<or> (\<exists>u. get_user_by_email (JStr un) d = Some u
              \<and> (\<not> confirmed u \<or> \<not> verify_password e pw (password u)))))
   \<and> (fst (login e un pw d) = Inl err \<longrightarrow>
        status_code err = Some 401 \<and> snd (login e un pw d) = d)
   \<and> (get_user_by_email (JStr un) d = Some u \<and> confirmed u
        \<and> verify_password e pw (password u) \<longrightarrow>
        login e un pw d
          = (Inr (TokenModel (create_access_token e [(''sub'', JStr (email u))] None)
                (create_refresh_token e [(''sub'', JStr (email u))] None) ''bearer''),
             update_token u (Some (create_refresh_token e [(''sub'', JStr (email u))] None)) d)
      \<and> get_user_by_email (JStr un) (snd (login e un pw d))
          = Some (u\<lparr>refresh_token :=
                     Some (create_refresh_token e [(''sub'', JStr (email u))] None)\<rparr>))"
proof (cases "get_user_by_email (JStr un) d")
  case None
  then show ?thesis by (auto simp: login_def)
next
  case (Some usr)
  show ?thesis
  proof (cases "confirmed usr \<and> verify_password e pw (password usr)")
    case False
    with Some show ?thesis by (auto simp: login_def)
  next
    case True
    with Some have run: "login e un pw d
        = (Inr (TokenModel (create_access_token e [(''sub'', JStr (email usr))] None)
              (create_refresh_token e [(''sub'', JStr (email usr))] None) ''bearer''),
           update_token usr (Some (create_refresh_token e [(''sub'', JStr (email usr))] None)) d)"
      by (simp add: login_def Let_def)
    from Some True run get_user_update_token [OF Some] show ?thesis by auto
  qed
qed

text \<open>
  The theorem at alice with her password (success), with a wrong password, and at an
  email nobody has; bob, who is not confirmed, is refused.
\<close>

theorem login_outcomes_witness:
  "login (demo_env [] 0) ''a@b.com'' ''secret'' [alice, bob]
     = (Inr (TokenModel (demo_encode access_payload) (demo_encode refresh_payload) ''bearer''),
        [alice\<lparr>refresh_token := Some (demo_encode refresh_payload)\<rparr>, bob])
   \<and> fst (login (demo_env [] 0) ''bob@b.com'' ''hunter2'' [alice, bob])
       = Inl (HTTPException 401 ''Email not confirmed'' [])
   \<and> (\<exists>err. fst (login (demo_env [] 0) ''a@b.com'' ''wrong'' [alice, bob]) = Inl err)
   \<and> (\<exists>err. fst (login (demo_env [] 0) ''nobody@b.com'' ''secret'' [alice, bob]) = Inl err)"
proof -
  let ?e = "demo_env [] 0"
  have a: "get_user_by_email (JStr ''a@b.com'') [alice, bob] = Some alice \<and> confirmed alice
      \<and> verify_password ?e ''secret'' (password alice)"
    by (simp add: get_user_by_email_def verify_password_def demo_defs)
  have t: "create_access_token ?e [(''sub'', JStr (email alice))] None = demo_encode access_payload
      \<and> create_refresh_token ?e [(''sub'', JStr (email alice))] None = demo_encode refresh_payload"
    by (simp add: create_access_token_def create_refresh_token_def demo_defs)
  have s: "update_token alice (Some (demo_encode refresh_payload)) [alice, bob]
      = [alice\<lparr>refresh_token := Some (demo_encode refresh_payload)\<rparr>, bob]"
    by (simp add: update_token_def alice_def bob_def)
  have 1: "login ?e ''a@b.com'' ''secret'' [alice, bob]
     = (Inr (TokenModel (demo_encode access_payload) (demo_encode refresh_payload) ''bearer''),
        [alice\<lparr>refresh_token := Some (demo_encode refresh_payload)\<rparr>, bob])"
    using a t s login_outcomes [where e = ?e and un = "''a@b.com''" and pw = "''secret''"
        and d = "[alice, bob]" and u = alice]
    by simp
  have w: "get_user_by_email (JStr ''a@b.com'') [alice, bob] = Some alice
      \<and> \<not> verify_password ?e ''wrong'' (password alice)"
    by (simp add: get_user_by_email_def verify_password_def demo_defs)
  have 3: "\<exists>err. fst (login ?e ''a@b.com'' ''wrong'' [alice, bob]) = Inl err"
    using w login_outcomes [where e = ?e and un = "''a@b.com''" and pw = "''wrong''"
        and d = "[alice, bob]"]
    by blast
  have n: "get_user_by_email (JStr ''nobody@b.com'') [alice, bob] = None"
    by (simp add: get_user_by_email_def demo_defs)
  have 4: "\<exists>err. fst (login ?e ''nobody@b.com'' ''secret'' [alice, bob]) = Inl err"
    using n login_outcomes [where e = ?e and un = "''nobody@b.com''" and pw = "''secret''"
        and d = "[alice, bob]"]
    by blast
  have 2: "fst (login ?e ''bob@b.com'' ''hunter2'' [alice, bob])
       = Inl (HTTPException 401 ''Email not confirmed'' [])"
    by (simp add: login_def get_user_by_email_def demo_defs)
  from 1 2 3 4 show ?thesis by blast
qed

section \<open>Refresh-token rotation\<close>

text \<open>
  C2, as the code has it. Given a token that decodes under the refresh scope and whose
  subject resolves to an identity: if the token differs from the identity's stored
  refresh token, the request is rejected with 401 and the stored value becomes null; if
  it matches, a new access token and a new refresh token are returned and the new refresh
  token is stored. When the new refresh token differs from the presented one, presenting
  the old token again (while it still decodes) is rejected with 401 and the stored value
  becomes null. The new token is the encoding of the same subject with the clock reading
  of the request, so it need not differ from the old one.
\<close>

theorem refresh_rotation:
  assumes "decode_refresh_token e tok = Inr em"
    and "get_user_by_email em d = Some u"
  shows "(refresh_token u \<noteq> Some tok \<longrightarrow>
            refresh_token_route e tok d
              = (Inl (HTTPException 401 ''Invalid refresh token'' []), update_token u None d)
          \<and> get_user_by_email em (update_token u None d) = Some (u\<lparr>refresh_token := None\<rparr>))
       \<and> (refresh_token u = Some tok \<longrightarrow>
            refresh_token_route e tok d
              = (Inr (TokenModel (create_access_token e [(''sub'', em)] None)
                    (create_refresh_token e [(''sub'', em)] None) ''bearer''),
                 update_token u (Some (create_refresh_token e [(''sub'', em)] None)) d)
          \<and> get_user_by_email em (snd (refresh_token_route e tok d))
              = Some (u\<lparr>refresh_token := Some (create_refresh_token e [(''sub'', em)] None)\<rparr>)
          \<and> (create_refresh_token e [(''sub'', em)] None \<noteq> tok
               \<and> decode_refresh_token e2 tok = Inr em \<longrightarrow>
                fst (refresh_token_route e2 tok (snd (refresh_token_route e tok d)))
                  = Inl (HTTPException 401 ''Invalid refresh token'' [])
              \<and> get_user_by_email em
                  (snd (refresh_token_route e2 tok (snd (refresh_token_route e tok d))))
                  = Some (u\<lparr>refresh_token := None\<rparr>)))"
proof (cases "refresh_token u = Some tok")
  case False
  with assms have "refresh_token_route e tok d
      = (Inl (HTTPException 401 ''Invalid refresh token'' []), update_token u None d)"
    by (simp add: refresh_token_route_def)
  with False get_user_update_token [OF assms(2)] show ?thesis by simp
next
  case True
  let ?new = "create_refresh_token e [(''sub'', em)] None"
  let ?d' = "update_token u (Some ?new) d"
  let ?u' = "u\<lparr>refresh_token := Some ?new\<rparr>"
  from assms True have run: "refresh_token_route e tok d
      = (Inr (TokenModel (create_access_token e [(''sub'', em)] None) ?new ''bearer''), ?d')"
    by (simp add: refresh_token_route_def Let_def)
  have found: "get_user_by_email em ?d' = Some ?u'"
    using assms(2) by (rule get_user_update_token)
  have again: "fst (refresh_token_route e2 tok ?d') = Inl (HTTPException 401 ''Invalid refresh token'' [])
      \<and> get_user_by_email em (snd (refresh_token_route e2 tok ?d')) = Some (u\<lparr>refresh_token := None\<rparr>)"
    if neq: "?new \<noteq> tok" and dec: "decode_refresh_token e2 tok = Inr em"
  proof -
    from dec found neq have "refresh_token_route e2 tok ?d'
        = (Inl (HTTPException 401 ''Invalid refresh token'' []), update_token ?u' None ?d')"
      by (simp add: refresh_token_route_def)
    moreover have "get_user_by_email em (update_token ?u' None ?d') = Some (?u'\<lparr>refresh_token := None\<rparr>)"
      using found by (rule get_user_update_token)
    ultimately show ?thesis by simp
  qed
  from True run found again show ?thesis by simp
qed

text \<open>
  The theorem at alice's refresh token minted at time 0: refused when nothing is stored;
  rotated at time 5 when it is the stored token, and refused at time 9 afterwards, which
  leaves alice with no stored token.
\<close>

theorem refresh_rotation_witness:
  "refresh_token_route (demo_env [refresh_payload] 5) (demo_encode refresh_payload) [alice, bob]
     = (Inl (HTTPException 401 ''Invalid refresh token'' []), [alice, bob])
   \<and> fst (refresh_token_route (demo_env [refresh_payload] 5) (demo_encode refresh_payload)
        [alice\<lparr>refresh_token := Some (demo_encode refresh_payload)\<rparr>, bob])
       = Inr (TokenModel
           (create_access_token (demo_env [refresh_payload] 5) [(''sub'', JStr ''a@b.com'')] None)
           (create_refresh_token (demo_env [refresh_payload] 5) [(''sub'', JStr ''a@b.com'')] None)
           ''bearer'')
   \<and> fst (refresh_token_route (demo_env [refresh_payload] 9) (demo_encode refresh_payload)
        (snd (refresh_token_route (demo_env [refresh_payload] 5) (demo_encode refresh_payload)
           [alice\<lparr>refresh_token := Some (demo_encode refresh_payload)\<rparr>, bob])))
       = Inl (HTTPException 401 ''Invalid refresh token'' [])
   \<and> get_user_by_email (JStr ''a@b.com'')
        (snd (refresh_token_route (demo_env [refresh_payload] 9) (demo_encode refresh_payload)
           (snd (refresh_token_route (demo_env [refresh_payload] 5) (demo_encode refresh_payload)
              [alice\<lparr>refresh_token := Some (demo_encode refresh_payload)\<rparr>, bob]))))
       = Some alice"
proof -
  let ?e = "demo_env [refresh_payload] 5"
  let ?e2 = "demo_env [refresh_payload] 9"
  let ?tok = "demo_encode refresh_payload"
  let ?al = "alice\<lparr>refresh_token := Some ?tok\<rparr>"
  have a: "decode_refresh_token ?e ?tok = Inr (JStr ''a@b.com'')"
    by (simp add: decode_refresh_token_def demo_defs)
  have a2: "decode_refresh_token ?e2 ?tok = Inr (JStr ''a@b.com'')"
    by (simp add: decode_refresh_token_def demo_defs)
  have b: "get_user_by_email (JStr ''a@b.com'') [alice, bob] = Some alice"
    by (simp add: get_user_by_email_def demo_defs)
  have c: "get_user_by_email (JStr ''a@b.com'') [?al, bob] = Some ?al"
    by (simp add: get_user_by_email_def demo_defs)
  have m: "refresh_token alice \<noteq> Some ?tok"
    by (simp add: alice_def)
  have m': "refresh_token ?al = Some ?tok"
    by simp
  have t: "create_refresh_token ?e [(''sub'', JStr ''a@b.com'')] None \<noteq> ?tok"
    by (simp add: create_refresh_token_def demo_defs char_of_eq_iff)
  have s: "update_token alice None [alice, bob] = [alice, bob]"
    by (simp add: update_token_def alice_def bob_def)
  have z: "?al\<lparr>refresh_token := None\<rparr> = alice"
    by (simp add: alice_def)
  from m refresh_rotation [OF a b]
  have "refresh_token_route ?e ?tok [alice, bob]
      = (Inl (HTTPException 401 ''Invalid refresh token'' []), update_token alice None [alice, bob])"
    by blast
  with s have 1: "refresh_token_route ?e ?tok [alice, bob]
      = (Inl (HTTPException 401 ''Invalid refresh token'' []), [alice, bob])"
    by simp
  note rot = refresh_rotation [OF a c, where ?e2.0 = ?e2]
  from rot m' have 2: "fst (refresh_token_route ?e ?tok [?al, bob])
       = Inr (TokenModel (create_access_token ?e [(''sub'', JStr ''a@b.com'')] None)
           (create_refresh_token ?e [(''sub'', JStr ''a@b.com'')] None) ''bearer'')"
    by (metis fst_conv)
  from rot m' t a2 have 3: "fst (refresh_token_route ?e2 ?tok (snd (refresh_token_route ?e ?tok [?al, bob])))
       = Inl (HTTPException 401 ''Invalid refresh token'' [])"
    by blast
  from rot m' t a2 have "get_user_by_email (JStr ''a@b.com'')
        (snd (refresh_token_route ?e2 ?tok (snd (refresh_token_route ?e ?tok [?al, bob]))))
       = Some (?al\<lparr>refresh_token := None\<rparr>)"
    by blast
  then have 4: "get_user_by_email (JStr ''a@b.com'')
        (snd (refresh_token_route ?e2 ?tok (snd (refresh_token_route ?e ?tok [?al, bob]))))
       = Some alice"
    unfolding z .
  from 1 2 3 4 show ?thesis by blast
qed

text \<open>
  C2 as stated fails: alice logs in at time 0 and refreshes at the same clock reading.
  The refresh token issued by the refresh is the one she presented, the stored value is
  unchanged, and presenting the token again succeeds.
\<close>

theorem refresh_at_the_same_clock_reading_keeps_the_token:
  "login (demo_env [refresh_payload] 0) ''a@b.com'' ''secret'' [alice]
     = (Inr (TokenModel (demo_encode access_payload) (demo_encode refresh_payload) ''bearer''),
        [alice\<lparr>refresh_token := Some (demo_encode refresh_payload)\<rparr>])
   \<and> refresh_token_route (demo_env [refresh_payload] 0) (demo_encode refresh_payload)
        [alice\<lparr>refresh_token := Some (demo_encode refresh_payload)\<rparr>]
       = (Inr (TokenModel (demo_encode access_payload) (demo_encode refresh_payload) ''bearer''),
          [alice\<lparr>refresh_token := Some (demo_encode refresh_payload)\<rparr>])
   \<and> refresh_token_route (demo_env [refresh_payload] 0) (demo_encode refresh_payload)
        (snd (refresh_token_route (demo_env [refresh_payload] 0) (demo_encode refresh_payload)
           [alice\<lparr>refresh_token := Some (demo_encode refresh_payload)\<rparr>]))
       = (Inr (TokenModel (demo_encode access_payload) (demo_encode refresh_payload) ''bearer''),
          [alice\<lparr>refresh_token := Some (demo_encode refresh_payload)\<rparr>])"
  by (simp add: login_def refresh_token_route_def decode_refresh_token_def get_user_by_email_def
      update_token_def verify_password_def create_access_token_def create_refresh_token_def
      demo_defs)

section \<open>Rate limits of the contact routes\<close>

text \<open>
  C8. The routes declare the quotas: list 5 per 60 seconds, single-item read 10 per 60,
  create 2 per 180, update 5 per 120, delete 5 per 60. On a route with quota 5 per 60,
  for a client with no live window at \<open>t1\<close>: of six calls at \<open>t1 \<le> ... \<le> t6 < t1 + 60\<close>
  the first five are allowed and the sixth is rejected; a call at \<open>t7 > t1 + 60\<close> is
  allowed and starts a new window (count 1, expiring at \<open>t7 + 60\<close>).
\<close>

theorem contact_route_quotas:
  assumes "rate_limiter route = (5, 60)"
    and "case st (client, route) of None \<Rightarrow> True | Some w \<Rightarrow> expires_at w \<le> t1"
    and "t1 \<le> t2" and "t2 \<le> t3" and "t3 \<le> t4" and "t4 \<le> t5" and "t5 \<le> t6"
    and "t6 < t1 + 60" and "t1 + 60 < t7"
  shows "rate_limiter get_contacts = (5, 60) \<and> rate_limiter get_contact = (10, 60)
       \<and> rate_limiter create_contact = (2, 180) \<and> rate_limiter update_contact = (5, 120)
       \<and> rate_limiter remove_contact = (5, 60)
       \<and> fst (call_route st client route [t1, t2, t3, t4, t5, t6, t7])
           = [True, True, True, True, True, False, True]
       \<and> snd (call_route st client route [t1, t2, t3, t4, t5, t6, t7]) (client, route)
           = Some \<lparr>calls = 1, expires_at = t7 + 60\<rparr>"
  using assms
  by (simp add: allow_def Let_def split: option.splits)

text \<open>The theorem at the list route, for calls at seconds 0, 10, 20, 30, 40, 59 and 61.\<close>

theorem contact_route_quotas_witness:
  "fst (call_route Map.empty ''10.0.0.1'' get_contacts [0, 10, 20, 30, 40, 59, 61])
     = [True, True, True, True, True, False, True]
   \<and> snd (call_route Map.empty ''10.0.0.1'' get_contacts [0, 10, 20, 30, 40, 59, 61])
        (''10.0.0.1'', get_contacts) = Some \<lparr>calls = 1, expires_at = 121\<rparr>"
proof -
  have q: "rate_limiter get_contacts = (5, 60)"
    by simp
  have f: "case Map.empty (''10.0.0.1'', get_contacts) of None \<Rightarrow> True
           | Some w \<Rightarrow> expires_at w \<le> (0::int)"
    by simp
  from contact_route_quotas [OF q f, of 10 20 30 40 59 61] show ?thesis
    by simp
qed

end
